theory Spec2Isabelle
  imports Complex_Main "HOL-Library.Multiset"
begin

section \<open>JSON values as the handlers see them\<close>

text \<open>
  \<^verbatim>\<open>await c.req.json()\<close> either rejects (empty body, text that is not JSON) or resolves to
  a parsed JSON value. A parsed value is one of the six JSON kinds; a JSON number is
  represented by its rational value, of which the handlers only ever test whether it is zero.
  An object is the list of its own properties, each name once.
\<close>

datatype json =
    JNull
  | JBool bool
  | JNum rat
  | JStr string
  | JArr "json list"
  | JObj "(string \<times> json) list"

text \<open>
  A JavaScript value bound by a destructuring pattern is either \<^verbatim>\<open>undefined\<close>
  (\<open>None\<close>) or a parsed JSON value.
\<close>

type_synonym js_value = "json option"

text \<open>The errors a handler can throw outside its \<^verbatim>\<open>try\<close> block.\<close>

datatype js_error = SyntaxError | TypeError

text \<open>
  The request body as \<^verbatim>\<open>c.req.json()\<close> delivers it: \<open>None\<close> when parsing rejects,
  \<open>Some j\<close> when the text is the JSON value \<open>j\<close>.
\<close>

type_synonym req_body = "json option"

text \<open>
  \<^verbatim>\<open>const { a, b } = await c.req.json()\<close>: the parse error propagates; destructuring
  \<^verbatim>\<open>null\<close> throws a TypeError; every other value (objects, arrays, strings, numbers,
  booleans) can be destructured.
\<close>

fun destructure :: "req_body \<Rightarrow> js_error + json" where
  "destructure None = Inl SyntaxError"
| "destructure (Some JNull) = Inl TypeError"
| "destructure (Some j) = Inr j"

text \<open>
  The value a destructuring pattern binds to the property \<open>k\<close>: the property of an
  object, \<^verbatim>\<open>undefined\<close> when the object has no such property or the value is not an
  object (none of the property names the handlers read exists on a prototype).
\<close>

fun get_prop :: "json \<Rightarrow> string \<Rightarrow> js_value" where
  "get_prop (JObj kvs) k = map_of kvs k"
| "get_prop _ k = None"

text \<open>JavaScript truthiness, the test behind \<^verbatim>\<open>!x\<close>.\<close>

fun truthy :: "js_value \<Rightarrow> bool" where
  "truthy None = False"
| "truthy (Some JNull) = False"
| "truthy (Some (JBool b)) = b"
| "truthy (Some (JNum n)) = (n \<noteq> 0)"
| "truthy (Some (JStr s)) = (s \<noteq> [])"
| "truthy (Some (JArr xs)) = True"
| "truthy (Some (JObj kvs)) = True"

section \<open>The schema: \<^verbatim>\<open>prisma/schema.prisma\<close>\<close>

text \<open>
  \<^verbatim>\<open>model Post\<close>: every column is required. \<open>createdAt\<close> is a point in time, counted
  in clock ticks.
\<close>

record post =
  post_id :: string
  createdAt :: nat
  title :: string
  content :: string
  authorId :: string
  published :: bool

text \<open>\<^verbatim>\<open>model User\<close>: the scalar columns \<open>id\<close> and \<open>email\<close>.\<close>

record user =
  user_id :: string
  email :: string

text \<open>
  The author attached to a post by
  \<^verbatim>\<open>include: { author: { select: { id: true, email: true } } }\<close>.
\<close>

record author_sel =
  sel_id :: string
  sel_email :: string

text \<open>The two tables.\<close>

record db =
  posts :: "post list"
  users :: "user list"

section \<open>The storage client\<close>

text \<open>
  Modelled from the spec: the storage client (\<^verbatim>\<open>prisma.post.*\<close>, generated from the schema
  and not part of the source files) and the database behind it. It is a reliable store over
  the two tables of the schema that rejects a call for three reasons only: an argument of
  the wrong type, a broken key constraint, a missing row. An outage of the storage service
  and the limits of the database's text encoding are not modelled. The handlers below pass
  it exactly the arguments the source passes.
\<close>

datatype storage_error =
    ValidationError
  | UniqueViolation
  | ForeignKeyViolation
  | RecordNotFound
  | InconsistentResult

text \<open>
  The values the storage layer generates for a new row: \<^verbatim>\<open>@default(uuid())\<close> and
  \<^verbatim>\<open>@default(now())\<close>. They are inputs of the call.
\<close>

record fresh =
  uuid :: string
  now :: nat

text \<open>Modelled from the spec: the row with primary key \<open>i\<close>.\<close>

definition find_post :: "db \<Rightarrow> string \<Rightarrow> post option" where
  "find_post d i = find (\<lambda>p. post_id p = i) (posts d)"

text \<open>
  Modelled from the spec: the selected columns of the author of a post. The relation is
  required; a post whose author row is missing makes the query fail.
\<close>

definition select_author :: "db \<Rightarrow> post \<Rightarrow> storage_error + author_sel" where
  "select_author d p =
     (case find (\<lambda>u. user_id u = authorId p) (users d) of
        None \<Rightarrow> Inl InconsistentResult
      | Some u \<Rightarrow> Inr \<lparr>sel_id = user_id u, sel_email = email u\<rparr>)"

fun include_author :: "db \<Rightarrow> post list \<Rightarrow> storage_error + (post \<times> author_sel) list" where
  "include_author d [] = Inr []"
| "include_author d (p # ps) =
     (case select_author d p of
        Inl e \<Rightarrow> Inl e
      | Inr a \<Rightarrow>
          (case include_author d ps of
             Inl e \<Rightarrow> Inl e
           | Inr rows \<Rightarrow> Inr ((p, a) # rows)))"

text \<open>
  Modelled from the spec: \<^verbatim>\<open>orderBy: { createdAt: dir }\<close>. With \<open>Desc\<close> the most
  recent post comes first. The order among posts of equal \<open>createdAt\<close> is the store's
  choice; here the row stored earlier stays first.
\<close>

datatype sort_order = Asc | Desc

fun comes_first :: "sort_order \<Rightarrow> post \<Rightarrow> post \<Rightarrow> bool" where
  "comes_first Asc p q = (createdAt p \<le> createdAt q)"
| "comes_first Desc p q = (createdAt q \<le> createdAt p)"

fun insert_by :: "sort_order \<Rightarrow> post \<Rightarrow> post list \<Rightarrow> post list" where
  "insert_by dir p [] = [p]"
| "insert_by dir p (q # qs) =
     (if comes_first dir p q then p # q # qs else q # insert_by dir p qs)"

fun order_by_createdAt :: "sort_order \<Rightarrow> post list \<Rightarrow> post list" where
  "order_by_createdAt dir [] = []"
| "order_by_createdAt dir (p # ps) = insert_by dir p (order_by_createdAt dir ps)"

text \<open>
  Modelled from the spec: \<^verbatim>\<open>prisma.post.findMany({ include, orderBy: { createdAt } })\<close>:
  every row of the table, in the order asked for, each with its author.
\<close>

definition post_findMany :: "db \<Rightarrow> sort_order \<Rightarrow> storage_error + (post \<times> author_sel) list" where
  "post_findMany d dir = include_author d (order_by_createdAt dir (posts d))"

text \<open>Modelled from the spec: \<^verbatim>\<open>prisma.post.findUnique({ where: { id }, include })\<close>.\<close>

definition post_findUnique_include ::
  "db \<Rightarrow> string \<Rightarrow> storage_error + (post \<times> author_sel) option" where
  "post_findUnique_include d i =
     (case find_post d i of
        None \<Rightarrow> Inr None
      | Some p \<Rightarrow>
          (case select_author d p of
             Inl e \<Rightarrow> Inl e
           | Inr a \<Rightarrow> Inr (Some (p, a))))"

text \<open>
  Modelled from the spec:
  \<^verbatim>\<open>prisma.post.findUnique({ where: { id }, select: { authorId: true } })\<close>.
\<close>

definition post_findUnique_authorId :: "db \<Rightarrow> string \<Rightarrow> string option" where
  "post_findUnique_authorId d i = map_option authorId (find_post d i)"

text \<open>
  Modelled from the spec: a required \<^verbatim>\<open>String\<close> argument of \<^verbatim>\<open>create\<close>. Only a string
  passes the client's validation.
\<close>

fun string_arg :: "js_value \<Rightarrow> storage_error + string" where
  "string_arg (Some (JStr s)) = Inr s"
| "string_arg _ = Inl ValidationError"

text \<open>
  Modelled from the spec: \<^verbatim>\<open>prisma.post.create({ data: { title, content, authorId,
  published } })\<close>. The arguments are validated, then the row is inserted with the generated
  \<open>id\<close> and \<open>createdAt\<close> under the primary key and the foreign key of the schema.
\<close>

definition post_create ::
  "db \<Rightarrow> fresh \<Rightarrow> js_value \<Rightarrow> js_value \<Rightarrow> js_value \<Rightarrow> bool \<Rightarrow> storage_error + (post \<times> db)" where
  "post_create d g t c a pub =
     (case string_arg t of
        Inl e \<Rightarrow> Inl e
      | Inr t' \<Rightarrow>
     (case string_arg c of
        Inl e \<Rightarrow> Inl e
      | Inr c' \<Rightarrow>
     (case string_arg a of
        Inl e \<Rightarrow> Inl e
      | Inr a' \<Rightarrow>
          if uuid g \<in> set (map post_id (posts d)) then Inl UniqueViolation
          else if a' \<notin> set (map user_id (users d)) then Inl ForeignKeyViolation
          else
            (let p = \<lparr>post_id = uuid g, createdAt = now g, title = t', content = c',
                      authorId = a', published = pub\<rparr>
             in Inr (p, d\<lparr>posts := posts d @ [p]\<rparr>)))))"

text \<open>
  An optional \<^verbatim>\<open>String\<close> argument of \<^verbatim>\<open>update\<close>. This part follows the schema and the
  contract of the storage client rather than the wording of the spec: the column is declared
  required, so no row can hold \<^verbatim>\<open>undefined\<close>, and the client reads an argument that is
  \<^verbatim>\<open>undefined\<close> as "leave the column as it is" (\<open>Inr None\<close>). A string, or the operation
  object \<^verbatim>\<open>{ set: s }\<close>, is the new value; anything else fails validation.
\<close>

fun string_update_arg :: "js_value \<Rightarrow> storage_error + string option" where
  "string_update_arg None = Inr None"
| "string_update_arg (Some (JStr s)) = Inr (Some s)"
| "string_update_arg (Some (JObj [(k, JStr s)])) =
     (if k = ''set'' then Inr (Some s) else Inl ValidationError)"
| "string_update_arg _ = Inl ValidationError"

text \<open>The same for an optional \<^verbatim>\<open>Boolean\<close> argument.\<close>

fun bool_update_arg :: "js_value \<Rightarrow> storage_error + bool option" where
  "bool_update_arg None = Inr None"
| "bool_update_arg (Some (JBool b)) = Inr (Some b)"
| "bool_update_arg (Some (JObj [(k, JBool b)])) =
     (if k = ''set'' then Inr (Some b) else Inl ValidationError)"
| "bool_update_arg _ = Inl ValidationError"

text \<open>The columns an \<^verbatim>\<open>update\<close> call of the handler can name, applied to one row.\<close>

definition apply_update :: "string option \<Rightarrow> string option \<Rightarrow> bool option \<Rightarrow> post \<Rightarrow> post" where
  "apply_update t c pub p =
     p\<lparr>title := (case t of None \<Rightarrow> title p | Some s \<Rightarrow> s),
       content := (case c of None \<Rightarrow> content p | Some s \<Rightarrow> s),
       published := (case pub of None \<Rightarrow> published p | Some b \<Rightarrow> b)\<rparr>"

text \<open>
  Modelled from the spec, but for the reading of its arguments, which is the one above:
  \<^verbatim>\<open>prisma.post.update({ where: { id }, data: { title, content, published } })\<close>. It
  returns the updated row.
\<close>

definition post_update ::
  "db \<Rightarrow> string \<Rightarrow> js_value \<Rightarrow> js_value \<Rightarrow> js_value \<Rightarrow> storage_error + (post \<times> db)" where
  "post_update d i t c pub =
     (case string_update_arg t of
        Inl e \<Rightarrow> Inl e
      | Inr t' \<Rightarrow>
     (case string_update_arg c of
        Inl e \<Rightarrow> Inl e
      | Inr c' \<Rightarrow>
     (case bool_update_arg pub of
        Inl e \<Rightarrow> Inl e
      | Inr pub' \<Rightarrow>
     (case find_post d i of
        None \<Rightarrow> Inl RecordNotFound
      | Some p \<Rightarrow>
          Inr (apply_update t' c' pub' p,
               d\<lparr>posts := map (\<lambda>q. if post_id q = i then apply_update t' c' pub' q else q)
                                (posts d)\<rparr>)))))"

text \<open>Modelled from the spec: \<^verbatim>\<open>prisma.post.delete({ where: { id } })\<close>.\<close>

definition post_delete :: "db \<Rightarrow> string \<Rightarrow> storage_error + db" where
  "post_delete d i =
     (case find_post d i of
        None \<Rightarrow> Inl RecordNotFound
      | Some p \<Rightarrow> Inr (d\<lparr>posts := filter (\<lambda>q. post_id q \<noteq> i) (posts d)\<rparr>))"

section \<open>Responses\<close>

text \<open>
  What a handler hands to \<^verbatim>\<open>c.json\<close>, \<^verbatim>\<open>c.text\<close> or \<^verbatim>\<open>c.body\<close>. \<open>ErrorBody m\<close> is
  \<^verbatim>\<open>{ error: m }\<close>; \<open>ErrorDetails m e\<close> is \<^verbatim>\<open>{ error: m, details }\<close> with the message of
  the storage error \<open>e\<close>.
\<close>

datatype payload =
    Text string
  | ErrorBody string
  | ErrorDetails string storage_error
  | PostJson post
  | PostWithAuthor post author_sel
  | PostList "(post \<times> author_sel) list"
  | Empty

record response =
  status :: nat
  payload :: payload

text \<open>
  A handler either returns a response or throws. \<open>Unrouted\<close> stands for a request that
  reaches none of the route handlers of the source and is answered by the framework (by the
  CORS middleware for a preflight, by the not-found handler otherwise).
\<close>

datatype outcome = Responded response | Threw js_error | Unrouted

text \<open>\<^verbatim>\<open>c.json(b, s)\<close> and \<^verbatim>\<open>c.text(t)\<close>, whose status is 200.\<close>

definition json_response :: "payload \<Rightarrow> nat \<Rightarrow> outcome" where
  "json_response b s = Responded \<lparr>status = s, payload = b\<rparr>"

definition text_response :: "string \<Rightarrow> outcome" where
  "text_response t = Responded \<lparr>status = 200, payload = Text t\<rparr>"

section \<open>The route handlers of \<^verbatim>\<open>src/index.ts\<close>\<close>

text \<open>\<^verbatim>\<open>app.get('/')\<close>\<close>

definition handle_root :: "db \<Rightarrow> outcome \<times> db" where
  "handle_root d =
     (text_response ''Hono Blog Backend (on Cloudflare Workers) is running!'', d)"

text \<open>\<^verbatim>\<open>app.get('/api/posts')\<close>\<close>

definition handle_get_posts :: "db \<Rightarrow> outcome \<times> db" where
  "handle_get_posts d =
     (case post_findMany d Desc of
        Inr rows \<Rightarrow> (json_response (PostList rows) 200, d)
      | Inl e \<Rightarrow> (json_response (ErrorDetails ''Failed to fetch posts'' e) 500, d))"

text \<open>\<^verbatim>\<open>app.get('/api/posts/:id')\<close>\<close>

definition handle_get_post :: "db \<Rightarrow> string \<Rightarrow> outcome \<times> db" where
  "handle_get_post d i =
     (case post_findUnique_include d i of
        Inr None \<Rightarrow> (json_response (ErrorBody ''Post not found'') 404, d)
      | Inr (Some (p, a)) \<Rightarrow> (json_response (PostWithAuthor p a) 200, d)
      | Inl e \<Rightarrow> (json_response (ErrorDetails ''Failed to fetch post'' e) 500, d))"

text \<open>\<^verbatim>\<open>app.post('/api/posts')\<close>\<close>

definition handle_create_post :: "db \<Rightarrow> fresh \<Rightarrow> req_body \<Rightarrow> outcome \<times> db" where
  "handle_create_post d g b =
     (case destructure b of
        Inl err \<Rightarrow> (Threw err, d)
      | Inr j \<Rightarrow>
          (let title = get_prop j ''title'';
               content = get_prop j ''content'';
               authorId = get_prop j ''authorId''
           in if \<not> truthy title \<or> \<not> truthy content \<or> \<not> truthy authorId
              then (json_response (ErrorBody ''Title, content, and author ID are required'') 400, d)
              else
                (case post_create d g title content authorId True of
                   Inr (newPost, d') \<Rightarrow> (json_response (PostJson newPost) 201, d')
                 | Inl e \<Rightarrow> (json_response (ErrorDetails ''Failed to create post'' e) 500, d))))"

text \<open>\<^verbatim>\<open>app.put('/api/posts/:id')\<close>\<close>

definition handle_update_post :: "db \<Rightarrow> string \<Rightarrow> req_body \<Rightarrow> outcome \<times> db" where
  "handle_update_post d i b =
     (case destructure b of
        Inl err \<Rightarrow> (Threw err, d)
      | Inr j \<Rightarrow>
          (let title = get_prop j ''title'';
               content = get_prop j ''content'';
               published = get_prop j ''published'';
               currentUserId = get_prop j ''currentUserId''
           in if \<not> truthy currentUserId
              then (json_response (ErrorBody ''Authentication required'') 401, d)
              else
                (case post_findUnique_authorId d i of
                   None \<Rightarrow> (json_response (ErrorBody ''Post not found'') 404, d)
                 | Some existing_authorId \<Rightarrow>
                     if Some (JStr existing_authorId) \<noteq> currentUserId
                     then (json_response
                             (ErrorBody ''Unauthorized: You are not the author of this post'') 403, d)
                     else
                       (case post_update d i title content published of
                          Inr (updatedPost, d') \<Rightarrow> (json_response (PostJson updatedPost) 200, d')
                        | Inl e \<Rightarrow>
                            (json_response (ErrorDetails ''Failed to update post'' e) 500, d)))))"

text \<open>\<^verbatim>\<open>app.delete('/api/posts/:id')\<close>\<close>

definition handle_delete_post :: "db \<Rightarrow> string \<Rightarrow> req_body \<Rightarrow> outcome \<times> db" where
  "handle_delete_post d i b =
     (case destructure b of
        Inl err \<Rightarrow> (Threw err, d)
      | Inr j \<Rightarrow>
          (let currentUserId = get_prop j ''currentUserId''
           in if \<not> truthy currentUserId
              then (json_response (ErrorBody ''Authentication required'') 401, d)
              else
                (case post_findUnique_authorId d i of
                   None \<Rightarrow> (json_response (ErrorBody ''Post not found'') 404, d)
                 | Some existing_authorId \<Rightarrow>
                     if Some (JStr existing_authorId) \<noteq> currentUserId
                     then (json_response
                             (ErrorBody ''Unauthorized: You are not the author of this post'') 403, d)
                     else
                       (case post_delete d i of
                          Inr d' \<Rightarrow> (Responded \<lparr>status = 204, payload = Empty\<rparr>, d')
                        | Inl e \<Rightarrow>
                            (json_response (ErrorDetails ''Failed to delete post'' e) 500, d)))))"

section \<open>Routing and the entry point\<close>

datatype http_method = GET | POST | PUT | DELETE | OPTIONS | OTHER

text \<open>
  A request: its method, the segments of its path (\<^verbatim>\<open>/api/posts/7\<close> is
  \<open>[''api'', ''posts'', ''7'']\<close>, \<^verbatim>\<open>/\<close> is \<open>[]\<close>) and its body as \<^verbatim>\<open>c.req.json()\<close>
  reads it.
\<close>

record request =
  req_method :: http_method
  path :: "string list"
  body :: req_body

text \<open>The route table: \<^verbatim>\<open>app.get\<close>, \<^verbatim>\<open>app.post\<close>, \<^verbatim>\<open>app.put\<close>, \<^verbatim>\<open>app.delete\<close>.\<close>

definition app_fetch :: "db \<Rightarrow> fresh \<Rightarrow> request \<Rightarrow> outcome \<times> db" where
  "app_fetch d g r =
     (if req_method r = GET \<and> path r = [] then handle_root d
      else if req_method r = GET \<and> path r = [''api'', ''posts''] then handle_get_posts d
      else if req_method r = POST \<and> path r = [''api'', ''posts''] then handle_create_post d g (body r)
      else
        (case path r of
           [a, b, i] \<Rightarrow>
             if a = ''api'' \<and> b = ''posts'' \<and> i \<noteq> [] then
               (if req_method r = GET then handle_get_post d i
                else if req_method r = PUT then handle_update_post d i (body r)
                else if req_method r = DELETE then handle_delete_post d i (body r)
                else (Unrouted, d))
             else (Unrouted, d)
         | _ \<Rightarrow> (Unrouted, d)))"

text \<open>
  \<^verbatim>\<open>type Bindings\<close>: the value of \<^verbatim>\<open>env.DATABASE_URL_ACCELERATE\<close> at run time, which may
  be missing or something other than a string whatever the declared type says.
\<close>

datatype env_value = EnvUndefined | EnvString string | EnvOther

record Bindings =
  DATABASE_URL_ACCELERATE :: env_value

text \<open>\<^verbatim>\<open>initializePrismaClient\<close>: a client bound to the connection string.\<close>

datatype prisma_client = PrismaClient string

definition initializePrismaClient :: "string \<Rightarrow> prisma_client" where
  "initializePrismaClient databaseUrl = PrismaClient databaseUrl"

text \<open>
  The process: the module variable \<^verbatim>\<open>prisma\<close> (\<open>None\<close> while it is \<^verbatim>\<open>undefined\<close>) and
  the database the client talks to.
\<close>

record world =
  prisma :: "prisma_client option"
  database :: db

definition startsWith :: "string \<Rightarrow> string \<Rightarrow> bool" where
  "startsWith s p = (take (length p) s = p)"

text \<open>
  The test of the entry point:
  \<^verbatim>\<open>!v || typeof v !== 'string' || !v.startsWith('prisma://')\<close>.
\<close>

fun url_misconfigured :: "env_value \<Rightarrow> bool" where
  "url_misconfigured EnvUndefined = True"
| "url_misconfigured EnvOther = True"
| "url_misconfigured (EnvString s) = (s = [] \<or> \<not> startsWith s ''prisma://'')"

fun env_url :: "env_value \<Rightarrow> string" where
  "env_url (EnvString s) = s"
| "env_url _ = []"

definition misconfiguration_response :: outcome where
  "misconfiguration_response =
     Responded \<lparr>status = 500,
                payload = Text ''Internal Server Error: Database URL misconfiguration''\<rparr>"

definition dispatch :: "world \<Rightarrow> fresh \<Rightarrow> request \<Rightarrow> outcome \<times> world" where
  "dispatch w g r = (case app_fetch (database w) g r of (out, d') \<Rightarrow> (out, w\<lparr>database := d'\<rparr>))"

text \<open>\<^verbatim>\<open>export default { fetch }\<close>\<close>

definition fetch :: "world \<Rightarrow> Bindings \<Rightarrow> fresh \<Rightarrow> request \<Rightarrow> outcome \<times> world" where
  "fetch w env g r =
     (if prisma w = None then
        (if url_misconfigured (DATABASE_URL_ACCELERATE env) then (misconfiguration_response, w)
         else dispatch
                (w\<lparr>prisma := Some (initializePrismaClient (env_url (DATABASE_URL_ACCELERATE env)))\<rparr>)
                g r)
      else dispatch w g r)"

text \<open>The process serving a sequence of requests, each with the environment it arrives with.\<close>

fun serve :: "world \<Rightarrow> (Bindings \<times> fresh \<times> request) list \<Rightarrow> outcome list \<times> world" where
  "serve w [] = ([], w)"
| "serve w ((env, g, r) # rest) =
     (case fetch w env g r of
        (out, w') \<Rightarrow> (case serve w' rest of (outs, w'') \<Rightarrow> (out # outs, w'')))"

section \<open>The constraints of the schema\<close>

text \<open>
  \<^verbatim>\<open>@relation(fields: [authorId], references: [id])\<close>: the author of every post is a row
  of the user table.
\<close>

definition referential_integrity :: "db \<Rightarrow> bool" where
  "referential_integrity d = (set (map authorId (posts d)) \<subseteq> set (map user_id (users d)))"

text \<open>\<^verbatim>\<open>@id\<close> on \<^verbatim>\<open>Post.id\<close>: no two posts share an id.\<close>

definition primary_key :: "db \<Rightarrow> bool" where
  "primary_key d = distinct (map post_id (posts d))"

section \<open>Sample data\<close>

text \<open>A small store and a few requests, on which the statements below are evaluated.\<close>

definition ex_users :: "user list" where
  "ex_users = [\<lparr>user_id = ''u1'', email = ''a@example.org''\<rparr>,
               \<lparr>user_id = ''u2'', email = ''b@example.org''\<rparr>]"

definition ex_post1 :: post where
  "ex_post1 = \<lparr>post_id = ''p1'', createdAt = 10, title = ''T'', content = ''C'',
                authorId = ''u1'', published = True\<rparr>"

definition ex_post2 :: post where
  "ex_post2 = \<lparr>post_id = ''p2'', createdAt = 20, title = ''T2'', content = ''C2'',
                authorId = ''u2'', published = False\<rparr>"

definition ex_db :: db where
  "ex_db = \<lparr>posts = [ex_post1, ex_post2], users = ex_users\<rparr>"

definition ex_fresh :: fresh where
  "ex_fresh = \<lparr>uuid = ''p3'', now = 30\<rparr>"

definition ex_valid_env :: Bindings where
  "ex_valid_env = \<lparr>DATABASE_URL_ACCELERATE = EnvString ''prisma://db''\<rparr>"

definition ex_missing_env :: Bindings where
  "ex_missing_env = \<lparr>DATABASE_URL_ACCELERATE = EnvUndefined\<rparr>"

definition ex_health_request :: request where
  "ex_health_request = \<lparr>req_method = GET, path = [], body = None\<rparr>"

definition ex_wrong_env :: Bindings where
  "ex_wrong_env = \<lparr>DATABASE_URL_ACCELERATE = EnvString ''postgres://db''\<rparr>"

definition ex_fresh_world :: world where
  "ex_fresh_world = \<lparr>prisma = None, database = ex_db\<rparr>"

definition ex_running_world :: world where
  "ex_running_world = \<lparr>prisma = Some (PrismaClient ''prisma://db''), database = ex_db\<rparr>"

definition ex_create_body :: "json \<Rightarrow> json" where
  "ex_create_body pub =
     JObj [(''title'', JStr ''a''), (''content'', JStr ''b''), (''authorId'', JStr ''u2''),
           (''published'', pub)]"

definition ex_post3 :: post where
  "ex_post3 = \<lparr>post_id = ''p3'', createdAt = 30, title = ''a'', content = ''b'',
                authorId = ''u2'', published = True\<rparr>"

definition ex_update_body :: json where
  "ex_update_body =
     JObj [(''currentUserId'', JStr ''u1''), (''title'', JStr ''N''), (''published'', JBool False)]"

definition ex_post1_updated :: post where
  "ex_post1_updated = \<lparr>post_id = ''p1'', createdAt = 10, title = ''N'', content = ''C'',
                        authorId = ''u1'', published = False\<rparr>"

definition ex_owner_only_body :: json where
  "ex_owner_only_body = JObj [(''currentUserId'', JStr ''u1'')]"

definition ex_numeric_title_body :: json where
  "ex_numeric_title_body =
     JObj [(''title'', JNum 5), (''content'', JStr ''b''), (''authorId'', JStr ''u2'')]"

definition ex_unknown_author_body :: json where
  "ex_unknown_author_body =
     JObj [(''title'', JStr ''a''), (''content'', JStr ''b''), (''authorId'', JStr ''u7'')]"

section \<open>Facts about the storage client\<close>

lemma find_post_authorId:
  "find_post d i = Some p \<Longrightarrow> post_findUnique_authorId d i = Some (authorId p)"
  by (simp add: post_findUnique_authorId_def)

lemma find_post_none_authorId:
  "find_post d i = None \<Longrightarrow> post_findUnique_authorId d i = None"
  by (simp add: post_findUnique_authorId_def)

lemma truthy_destructure:
  "truthy (get_prop j k) \<Longrightarrow> destructure (Some j) = Inr j"
  by (cases j) simp_all

lemma find_post_after_delete:
  "find_post (d\<lparr>posts := filter (\<lambda>q. post_id q \<noteq> i) (posts d)\<rparr>) i = None"
  by (simp add: find_post_def find_None_iff)

lemma delete_succeeds_gone:
  assumes "handle_delete_post d i b = (Responded \<lparr>status = 204, payload = Empty\<rparr>, d')"
  shows "find_post d' i = None"
  using assms find_post_after_delete [where d = d and i = i]
  by (auto simp add: handle_delete_post_def post_delete_def json_response_def Let_def
      split: sum.splits option.splits if_splits)

section \<open>Ownership\<close>

text \<open>
  C1. A stored post \<open>p\<close> with id \<open>i\<close>, and a body whose \<open>currentUserId\<close> is present
  (truthy, the test the handlers make) but is not the \<open>authorId\<close> of \<open>p\<close>: the update
  handler and the delete handler both answer 403 with
  \<^verbatim>\<open>{ error: "Unauthorized: You are not the author of this post" }\<close>, and the store they
  return is the store they were given: nothing is updated, nothing is deleted.
\<close>

theorem C1_not_author_forbidden:
  assumes present: "get_prop j ''currentUserId'' = Some v" "truthy (Some v)"
    and stored: "find_post d i = Some p"
    and other: "v \<noteq> JStr (authorId p)"
  shows "handle_update_post d i (Some j) =
           (json_response (ErrorBody ''Unauthorized: You are not the author of this post'') 403, d) \<and>
         handle_delete_post d i (Some j) =
           (json_response (ErrorBody ''Unauthorized: You are not the author of this post'') 403, d)"
proof -
  have dj: "destructure (Some j) = Inr j"
    using present truthy_destructure [of j "''currentUserId''"] by simp
  have au: "post_findUnique_authorId d i = Some (authorId p)"
    using stored by (rule find_post_authorId)
  have ne: "Some (JStr (authorId p)) \<noteq> get_prop j ''currentUserId''"
    using present other by auto
  show ?thesis
    using dj au ne present
    by (simp add: handle_update_post_def handle_delete_post_def)
qed

theorem C1_witness:
  "handle_update_post ex_db ''p1''
     (Some (JObj [(''currentUserId'', JStr ''u2''), (''title'', JStr ''X'')])) =
     (json_response (ErrorBody ''Unauthorized: You are not the author of this post'') 403, ex_db) \<and>
   handle_delete_post ex_db ''p1''
     (Some (JObj [(''currentUserId'', JStr ''u2''), (''title'', JStr ''X'')])) =
     (json_response (ErrorBody ''Unauthorized: You are not the author of this post'') 403, ex_db)"
  using C1_not_author_forbidden [of "JObj [(''currentUserId'', JStr ''u2''), (''title'', JStr ''X'')]"
      "JStr ''u2''" ex_db "''p1''" ex_post1]
  by (simp add: find_post_def ex_db_def ex_post1_def)

section \<open>Authentication\<close>

text \<open>
  C2, as the code has it. When the body can be destructured (it is JSON and not
  \<^verbatim>\<open>null\<close>) and its \<open>currentUserId\<close> is missing or falsy, the update handler and the
  delete handler answer 401 with \<^verbatim>\<open>{ error: "Authentication required" }\<close> whatever the
  store holds and whatever the id is, and return the store untouched: the answer is the
  same for an id that names a post and for one that names none.
\<close>

theorem C2_unauthenticated_401:
  assumes "destructure b = Inr j" and "\<not> truthy (get_prop j ''currentUserId'')"
  shows "handle_update_post d i b = (json_response (ErrorBody ''Authentication required'') 401, d) \<and>
         handle_delete_post d i b = (json_response (ErrorBody ''Authentication required'') 401, d)"
  using assms by (simp add: handle_update_post_def handle_delete_post_def)

theorem C2_witness:
  "handle_update_post ex_db ''nope'' (Some (JObj [(''title'', JStr ''X'')])) =
     (json_response (ErrorBody ''Authentication required'') 401, ex_db) \<and>
   handle_delete_post ex_db ''nope'' (Some (JObj [(''title'', JStr ''X'')])) =
     (json_response (ErrorBody ''Authentication required'') 401, ex_db)"
  using C2_unauthenticated_401 [of "Some (JObj [(''title'', JStr ''X'')])"
      "JObj [(''title'', JStr ''X'')]" ex_db "''nope''"]
  by simp

text \<open>
  The body \<^verbatim>\<open>null\<close> is well-formed JSON and has no \<open>currentUserId\<close>, yet neither
  handler answers 401 on it: destructuring it throws before the check is reached.
\<close>

theorem C2_null_body_counterexample:
  "handle_update_post ex_db ''p1'' (Some JNull) = (Threw TypeError, ex_db) \<and>
   handle_delete_post ex_db ''p1'' (Some JNull) = (Threw TypeError, ex_db) \<and>
   handle_update_post ex_db ''p1'' (Some JNull) \<noteq>
     (json_response (ErrorBody ''Authentication required'') 401, ex_db) \<and>
   handle_delete_post ex_db ''p1'' (Some JNull) \<noteq>
     (json_response (ErrorBody ''Authentication required'') 401, ex_db)"
  by (simp add: handle_update_post_def handle_delete_post_def json_response_def)

section \<open>Posts that do not exist\<close>

text \<open>
  C5. For an id that names no stored post, reading it answers 404 with
  \<^verbatim>\<open>{ error: "Post not found" }\<close>, and so do updating and deleting it when the body
  carries a truthy \<open>currentUserId\<close>, whoever that is: existence is checked before
  ownership. The store comes back untouched. In particular a delete that follows a
  successful delete (204) of the same id answers 404.
\<close>

theorem C5_missing_post_404:
  assumes here: "truthy (get_prop j ''currentUserId'')"
  shows "(find_post d i = None \<longrightarrow>
            handle_get_post d i = (json_response (ErrorBody ''Post not found'') 404, d) \<and>
            handle_update_post d i (Some j) = (json_response (ErrorBody ''Post not found'') 404, d) \<and>
            handle_delete_post d i (Some j) = (json_response (ErrorBody ''Post not found'') 404, d)) \<and>
         (handle_delete_post d0 i b0 = (Responded \<lparr>status = 204, payload = Empty\<rparr>, d) \<longrightarrow>
            handle_delete_post d i (Some j) = (json_response (ErrorBody ''Post not found'') 404, d))"
proof -
  have dj: "destructure (Some j) = Inr j"
    using here by (rule truthy_destructure)
  have gone: "find_post d i = None \<Longrightarrow>
      handle_get_post d i = (json_response (ErrorBody ''Post not found'') 404, d) \<and>
      handle_update_post d i (Some j) = (json_response (ErrorBody ''Post not found'') 404, d) \<and>
      handle_delete_post d i (Some j) = (json_response (ErrorBody ''Post not found'') 404, d)"
    using dj here
    by (simp add: handle_get_post_def post_findUnique_include_def handle_update_post_def
        handle_delete_post_def find_post_none_authorId)
  have again: "handle_delete_post d0 i b0 = (Responded \<lparr>status = 204, payload = Empty\<rparr>, d) \<Longrightarrow>
      find_post d i = None"
    by (rule delete_succeeds_gone)
  show ?thesis
    using gone again by simp
qed

theorem C5_witness:
  "find_post ex_db ''p7'' = None \<and>
   handle_get_post ex_db ''p7'' = (json_response (ErrorBody ''Post not found'') 404, ex_db) \<and>
   handle_update_post ex_db ''p7'' (Some (JObj [(''currentUserId'', JStr ''u1'')])) =
     (json_response (ErrorBody ''Post not found'') 404, ex_db) \<and>
   handle_delete_post ex_db ''p7'' (Some (JObj [(''currentUserId'', JStr ''u1'')])) =
     (json_response (ErrorBody ''Post not found'') 404, ex_db) \<and>
   handle_delete_post ex_db ''p2'' (Some (JObj [(''currentUserId'', JStr ''u2'')])) =
     (Responded \<lparr>status = 204, payload = Empty\<rparr>, ex_db\<lparr>posts := [ex_post1]\<rparr>) \<and>
   handle_delete_post (ex_db\<lparr>posts := [ex_post1]\<rparr>) ''p2''
     (Some (JObj [(''currentUserId'', JStr ''u2'')])) =
     (json_response (ErrorBody ''Post not found'') 404, ex_db\<lparr>posts := [ex_post1]\<rparr>)"
proof -
  have absent: "find_post ex_db ''p7'' = None"
    by (simp add: find_post_def ex_db_def ex_post1_def ex_post2_def)
  have first: "handle_delete_post ex_db ''p2'' (Some (JObj [(''currentUserId'', JStr ''u2'')])) =
     (Responded \<lparr>status = 204, payload = Empty\<rparr>, ex_db\<lparr>posts := [ex_post1]\<rparr>)"
    by (simp add: handle_delete_post_def post_findUnique_authorId_def find_post_def post_delete_def
        ex_db_def ex_post1_def ex_post2_def)
  show ?thesis
    using absent first
      C5_missing_post_404 [of "JObj [(''currentUserId'', JStr ''u1'')]" ex_db "''p7''"]
      C5_missing_post_404 [of "JObj [(''currentUserId'', JStr ''u2'')]"
        "ex_db\<lparr>posts := [ex_post1]\<rparr>" "''p2''" ex_db
        "Some (JObj [(''currentUserId'', JStr ''u2'')])"]
    by simp
qed

section \<open>Creating a post: required fields\<close>

text \<open>
  C6, as the code has it. When the body can be destructured (it is JSON and not
  \<^verbatim>\<open>null\<close>) and one of \<open>title\<close>, \<open>content\<close>, \<open>authorId\<close> is missing or falsy, the
  create handler answers 400 with
  \<^verbatim>\<open>{ error: "Title, content, and author ID are required" }\<close> and returns the store
  untouched: no post is created and the storage client is not called.
\<close>

theorem C6_missing_field_400:
  assumes "destructure b = Inr j"
    and "\<not> truthy (get_prop j ''title'') \<or> \<not> truthy (get_prop j ''content'') \<or>
         \<not> truthy (get_prop j ''authorId'')"
  shows "handle_create_post d g b =
           (json_response (ErrorBody ''Title, content, and author ID are required'') 400, d)"
  using assms by (auto simp add: handle_create_post_def)

theorem C6_witness:
  "handle_create_post ex_db ex_fresh
     (Some (JObj [(''title'', JStr ''a''), (''content'', JStr []), (''authorId'', JStr ''u1'')])) =
     (json_response (ErrorBody ''Title, content, and author ID are required'') 400, ex_db)"
  using C6_missing_field_400 [of
      "Some (JObj [(''title'', JStr ''a''), (''content'', JStr []), (''authorId'', JStr ''u1'')])"
      "JObj [(''title'', JStr ''a''), (''content'', JStr []), (''authorId'', JStr ''u1'')]"
      ex_db ex_fresh]
  by simp

text \<open>
  A body that is \<^verbatim>\<open>null\<close>, or that is no JSON at all, has none of the three fields, yet
  the create handler does not answer 400 on it: it throws.
\<close>

theorem C6_body_counterexample:
  "handle_create_post ex_db ex_fresh (Some JNull) = (Threw TypeError, ex_db) \<and>
   handle_create_post ex_db ex_fresh None = (Threw SyntaxError, ex_db) \<and>
   handle_create_post ex_db ex_fresh (Some JNull) \<noteq>
     (json_response (ErrorBody ''Title, content, and author ID are required'') 400, ex_db)"
  by (simp add: handle_create_post_def json_response_def)

section \<open>Malformed bodies\<close>

text \<open>
  C9. The update and the delete handler read the body as JSON before the authentication
  check: on a body that is empty or not JSON both throw the parse error, so none of the
  401, 403 and 404 answers is produced, and the store is left as it is.
\<close>

theorem C9_unparsable_body_throws:
  "handle_update_post d i None = (Threw SyntaxError, d) \<and>
   handle_delete_post d i None = (Threw SyntaxError, d)"
  by (simp add: handle_update_post_def handle_delete_post_def)

section \<open>Facts about reading and ordering\<close>

lemma stored_post_found:
  "distinct (map post_id ps) \<Longrightarrow> p \<in> set ps \<Longrightarrow> find (\<lambda>q. post_id q = post_id p) ps = Some p"
  by (induction ps) force+

lemma mset_insert_by: "mset (insert_by dir p qs) = add_mset p (mset qs)"
  by (induction qs) auto

lemma mset_order_by_createdAt: "mset (order_by_createdAt dir ps) = mset ps"
  by (induction ps) (auto simp add: mset_insert_by)

lemma set_insert_by: "set (insert_by dir p qs) = insert p (set qs)"
  by (induction qs) auto

lemma set_order_by_createdAt: "set (order_by_createdAt dir ps) = set ps"
  by (induction ps) (auto simp add: set_insert_by)

lemma sorted_insert_by_desc:
  "sorted_wrt (\<lambda>a b. createdAt b \<le> createdAt a) qs \<Longrightarrow>
   sorted_wrt (\<lambda>a b. createdAt b \<le> createdAt a) (insert_by Desc p qs)"
  by (induction qs) (auto simp add: set_insert_by)

lemma sorted_order_by_desc:
  "sorted_wrt (\<lambda>a b. createdAt b \<le> createdAt a) (order_by_createdAt Desc ps)"
  by (induction ps) (auto simp add: sorted_insert_by_desc)

lemma select_author_Inr:
  "select_author d p = Inr a \<Longrightarrow>
   \<exists>u\<in>set (users d). user_id u = authorId p \<and> a = \<lparr>sel_id = user_id u, sel_email = email u\<rparr>"
  by (auto simp add: select_author_def find_Some_iff split: option.splits)

lemma select_author_total:
  "authorId p \<in> set (map user_id (users d)) \<Longrightarrow>
   \<exists>a. select_author d p = Inr a \<and> sel_id a = authorId p"
  by (auto simp add: select_author_def find_None_iff find_Some_iff split: option.splits)

lemma include_author_Inr:
  "include_author d ps = Inr rows \<Longrightarrow>
   map fst rows = ps \<and> (\<forall>(p, a)\<in>set rows. select_author d p = Inr a)"
  by (induction ps arbitrary: rows) (auto split: sum.splits)

lemma include_author_total:
  "set (map authorId ps) \<subseteq> set (map user_id (users d)) \<Longrightarrow> \<exists>rows. include_author d ps = Inr rows"
proof (induction ps)
  case Nil
  then show ?case by simp
next
  case (Cons p ps)
  then obtain a where "select_author d p = Inr a"
    using select_author_total [of p d] by auto
  moreover from Cons obtain rows where "include_author d ps = Inr rows" by auto
  ultimately show ?case by simp
qed

section \<open>Listing posts\<close>

text \<open>
  C4. On a store that satisfies the foreign key of the schema (every post's author is a
  user), the list handler answers 200 with rows such that: the posts of the rows are the
  posts of the table, every one of them once (no row is left out, there is no page);
  for a row \<open>A\<close> before a row \<open>B\<close>, \<open>createdAt B \<le> createdAt A\<close>; and the author attached to
  a post is the id and the email of the user whose id is the post's \<open>authorId\<close>, and nothing
  else.
\<close>

theorem C4_list_posts:
  assumes "referential_integrity d"
  shows "\<exists>rows. handle_get_posts d = (json_response (PostList rows) 200, d) \<and>
           mset (map fst rows) = mset (posts d) \<and>
           sorted_wrt (\<lambda>a b. createdAt b \<le> createdAt a) (map fst rows) \<and>
           (\<forall>(p, a)\<in>set rows. \<exists>u\<in>set (users d).
              user_id u = authorId p \<and> a = \<lparr>sel_id = user_id u, sel_email = email u\<rparr>)"
proof -
  let ?ps = "order_by_createdAt Desc (posts d)"
  have "set (map authorId ?ps) \<subseteq> set (map user_id (users d))"
    using assms by (simp add: referential_integrity_def set_order_by_createdAt)
  then obtain rows where rows: "include_author d ?ps = Inr rows"
    using include_author_total by blast
  have fst: "map fst rows = ?ps" and sel: "\<forall>(p, a)\<in>set rows. select_author d p = Inr a"
    using include_author_Inr [OF rows] by auto
  have "handle_get_posts d = (json_response (PostList rows) 200, d)"
    using rows by (simp add: handle_get_posts_def post_findMany_def)
  moreover have "mset (map fst rows) = mset (posts d)"
    by (simp add: fst mset_order_by_createdAt)
  moreover have "sorted_wrt (\<lambda>a b. createdAt b \<le> createdAt a) (map fst rows)"
    by (simp add: fst sorted_order_by_desc)
  moreover have "\<forall>(p, a)\<in>set rows. \<exists>u\<in>set (users d).
      user_id u = authorId p \<and> a = \<lparr>sel_id = user_id u, sel_email = email u\<rparr>"
    using sel select_author_Inr by fastforce
  ultimately show ?thesis by blast
qed

theorem C4_witness:
  "handle_get_posts ex_db =
     (json_response
        (PostList [(ex_post2, \<lparr>sel_id = ''u2'', sel_email = ''b@example.org''\<rparr>),
                   (ex_post1, \<lparr>sel_id = ''u1'', sel_email = ''a@example.org''\<rparr>)]) 200, ex_db) \<and>
   (\<exists>rows. handle_get_posts ex_db = (json_response (PostList rows) 200, ex_db) \<and>
      mset (map fst rows) = mset (posts ex_db) \<and>
      sorted_wrt (\<lambda>a b. createdAt b \<le> createdAt a) (map fst rows) \<and>
      (\<forall>(p, a)\<in>set rows. \<exists>u\<in>set (users ex_db).
         user_id u = authorId p \<and> a = \<lparr>sel_id = user_id u, sel_email = email u\<rparr>))"
proof -
  have ri: "referential_integrity ex_db"
    by (simp add: referential_integrity_def ex_db_def ex_post1_def ex_post2_def ex_users_def)
  have run: "handle_get_posts ex_db =
     (json_response
        (PostList [(ex_post2, \<lparr>sel_id = ''u2'', sel_email = ''b@example.org''\<rparr>),
                   (ex_post1, \<lparr>sel_id = ''u1'', sel_email = ''a@example.org''\<rparr>)]) 200, ex_db)"
    by (simp add: handle_get_posts_def post_findMany_def select_author_def
        ex_db_def ex_post1_def ex_post2_def ex_users_def)
  show ?thesis
    using run C4_list_posts [OF ri] by blast
qed

section \<open>Facts about creating\<close>

lemma string_arg_Inr: "string_arg v = Inr s \<longleftrightarrow> v = Some (JStr s)"
  by (cases v rule: string_arg.cases) auto

lemma find_post_append_new:
  "post_id p \<notin> set (map post_id ps) \<Longrightarrow> find (\<lambda>q. post_id q = post_id p) (ps @ [p]) = Some p"
  by (induction ps) auto

lemma post_create_Inr:
  assumes "post_create d g t c a pub = Inr (p, d')"
  shows "published p = pub \<and> post_id p = uuid g \<and> createdAt p = now g \<and>
         t = Some (JStr (title p)) \<and> c = Some (JStr (content p)) \<and> a = Some (JStr (authorId p)) \<and>
         uuid g \<notin> set (map post_id (posts d)) \<and> authorId p \<in> set (map user_id (users d)) \<and>
         d' = d\<lparr>posts := posts d @ [p]\<rparr>"
  using assms
  by (auto simp add: post_create_def Let_def string_arg_Inr split: sum.splits if_splits)

lemma handle_create_post_201:
  assumes "handle_create_post d g b = (json_response (PostJson p) 201, d')"
  shows "\<exists>j. destructure b = Inr j \<and>
           post_create d g (get_prop j ''title'') (get_prop j ''content'') (get_prop j ''authorId'') True
             = Inr (p, d')"
  using assms
  by (auto simp add: handle_create_post_def Let_def json_response_def split: sum.splits if_splits)

lemma create_then_get:
  assumes "post_create d g t c a pub = Inr (p, d')"
  shows "find_post d' (post_id p) = Some p \<and>
         (\<exists>au. handle_get_post d' (post_id p) = (json_response (PostWithAuthor p au) 200, d') \<and>
                sel_id au = authorId p)"
proof -
  from post_create_Inr [OF assms]
  have fresh: "post_id p \<notin> set (map post_id (posts d))"
    and known: "authorId p \<in> set (map user_id (users d))"
    and d': "d' = d\<lparr>posts := posts d @ [p]\<rparr>"
    by auto
  have found: "find_post d' (post_id p) = Some p"
    using fresh by (simp add: d' find_post_def find_post_append_new)
  have "authorId p \<in> set (map user_id (users d'))"
    using known by (simp add: d')
  then obtain au where "select_author d' p = Inr au" "sel_id au = authorId p"
    using select_author_total by blast
  then show ?thesis
    using found by (auto simp add: handle_get_post_def post_findUnique_include_def)
qed

section \<open>Creating a post: published\<close>

lemma handle_create_post_strings:
  assumes "destructure b = Inr j"
    and "get_prop j ''title'' = Some (JStr t)" "t \<noteq> []"
    and "get_prop j ''content'' = Some (JStr c)" "c \<noteq> []"
    and "get_prop j ''authorId'' = Some (JStr a)" "a \<noteq> []"
    and "a \<in> set (map user_id (users d))"
    and "uuid g \<notin> set (map post_id (posts d))"
  shows "handle_create_post d g b =
           (json_response
              (PostJson \<lparr>post_id = uuid g, createdAt = now g, title = t, content = c,
                          authorId = a, published = True\<rparr>) 201,
            d\<lparr>posts := posts d @ [\<lparr>post_id = uuid g, createdAt = now g, title = t, content = c,
                                     authorId = a, published = True\<rparr>]\<rparr>)"
  using assms by (simp add: handle_create_post_def post_create_def Let_def)

text \<open>
  C3, as the code has it. A create request whose \<open>title\<close>, \<open>content\<close> and \<open>authorId\<close> are
  non-empty strings, whose \<open>authorId\<close> is the id of a user, and for which the storage layer
  generates an id no post has yet, is answered 201 with the new post, whose \<open>published\<close>
  is true and whose other fields are the three strings and the generated id and time;
  that post is appended to the table. A request whose three fields are merely truthy
  either creates a post in this way or is rejected by the storage client, answering 500
  and leaving the store as it was. Whenever the handler answers 201 with a post \<open>p\<close>, that
  post is published, it is the row added to the table, and reading the returned id from
  the new store answers 200 with \<open>p\<close> itself (so \<open>published\<close> is true) and its author.
  The handler reads nothing of the body but the three fields: two bodies that agree on
  them, whatever \<open>published\<close> they carry, are handled alike.
\<close>

theorem C3_created_published:
  "(destructure b = Inr j \<and>
    get_prop j ''title'' = Some (JStr t) \<and> t \<noteq> [] \<and>
    get_prop j ''content'' = Some (JStr c) \<and> c \<noteq> [] \<and>
    get_prop j ''authorId'' = Some (JStr a) \<and> a \<noteq> [] \<and>
    a \<in> set (map user_id (users d)) \<and> uuid g \<notin> set (map post_id (posts d)) \<longrightarrow>
      handle_create_post d g b =
        (json_response
           (PostJson \<lparr>post_id = uuid g, createdAt = now g, title = t, content = c,
                       authorId = a, published = True\<rparr>) 201,
         d\<lparr>posts := posts d @ [\<lparr>post_id = uuid g, createdAt = now g, title = t, content = c,
                                  authorId = a, published = True\<rparr>]\<rparr>)) \<and>
   (destructure b = Inr j \<and> truthy (get_prop j ''title'') \<and> truthy (get_prop j ''content'') \<and>
    truthy (get_prop j ''authorId'') \<longrightarrow>
      (\<exists>p d'. handle_create_post d g b = (json_response (PostJson p) 201, d') \<and> published p) \<or>
      (\<exists>e. handle_create_post d g b =
             (json_response (ErrorDetails ''Failed to create post'' e) 500, d))) \<and>
   (handle_create_post d g b = (json_response (PostJson p) 201, d') \<longrightarrow>
      published p \<and> posts d' = posts d @ [p] \<and> users d' = users d \<and>
      find_post d' (post_id p) = Some p \<and>
      (\<exists>au. handle_get_post d' (post_id p) = (json_response (PostWithAuthor p au) 200, d') \<and>
             sel_id au = authorId p)) \<and>
   (destructure b = Inr j \<and> destructure b' = Inr j' \<and>
    get_prop j' ''title'' = get_prop j ''title'' \<and> get_prop j' ''content'' = get_prop j ''content'' \<and>
    get_prop j' ''authorId'' = get_prop j ''authorId'' \<longrightarrow>
      handle_create_post d g b' = handle_create_post d g b)"
proof -
  have stores: "destructure b = Inr j \<Longrightarrow>
      get_prop j ''title'' = Some (JStr t) \<Longrightarrow> t \<noteq> [] \<Longrightarrow>
      get_prop j ''content'' = Some (JStr c) \<Longrightarrow> c \<noteq> [] \<Longrightarrow>
      get_prop j ''authorId'' = Some (JStr a) \<Longrightarrow> a \<noteq> [] \<Longrightarrow>
      a \<in> set (map user_id (users d)) \<Longrightarrow> uuid g \<notin> set (map post_id (posts d)) \<Longrightarrow>
      handle_create_post d g b =
        (json_response
           (PostJson \<lparr>post_id = uuid g, createdAt = now g, title = t, content = c,
                       authorId = a, published = True\<rparr>) 201,
         d\<lparr>posts := posts d @ [\<lparr>post_id = uuid g, createdAt = now g, title = t, content = c,
                                  authorId = a, published = True\<rparr>]\<rparr>)"
    by (rule handle_create_post_strings)
  have either: "destructure b = Inr j \<Longrightarrow> truthy (get_prop j ''title'') \<Longrightarrow>
      truthy (get_prop j ''content'') \<Longrightarrow> truthy (get_prop j ''authorId'') \<Longrightarrow>
      (\<exists>p d'. handle_create_post d g b = (json_response (PostJson p) 201, d') \<and> published p) \<or>
      (\<exists>e. handle_create_post d g b =
             (json_response (ErrorDetails ''Failed to create post'' e) 500, d))"
    using post_create_Inr [of d g "get_prop j ''title''" "get_prop j ''content''"
        "get_prop j ''authorId''" True]
    by (auto simp add: handle_create_post_def split: sum.splits)
  have created: "handle_create_post d g b = (json_response (PostJson p) 201, d') \<Longrightarrow>
      published p \<and> posts d' = posts d @ [p] \<and> users d' = users d \<and>
      find_post d' (post_id p) = Some p \<and>
      (\<exists>au. handle_get_post d' (post_id p) = (json_response (PostWithAuthor p au) 200, d') \<and>
             sel_id au = authorId p)"
  proof -
    assume "handle_create_post d g b = (json_response (PostJson p) 201, d')"
    then obtain j0 where c: "post_create d g (get_prop j0 ''title'') (get_prop j0 ''content'')
        (get_prop j0 ''authorId'') True = Inr (p, d')"
      using handle_create_post_201 by blast
    from post_create_Inr [OF c] create_then_get [OF c] show ?thesis by auto
  qed
  have same: "destructure b = Inr j \<Longrightarrow> destructure b' = Inr j' \<Longrightarrow>
      get_prop j' ''title'' = get_prop j ''title'' \<Longrightarrow>
      get_prop j' ''content'' = get_prop j ''content'' \<Longrightarrow>
      get_prop j' ''authorId'' = get_prop j ''authorId'' \<Longrightarrow>
      handle_create_post d g b' = handle_create_post d g b"
    by (simp add: handle_create_post_def)
  show ?thesis
    using stores either created same by blast
qed

theorem C3_witness:
  "handle_create_post ex_db ex_fresh (Some (ex_create_body (JBool False))) =
     (json_response (PostJson ex_post3) 201, ex_db\<lparr>posts := [ex_post1, ex_post2, ex_post3]\<rparr>) \<and>
   published ex_post3 \<and>
   find_post (ex_db\<lparr>posts := [ex_post1, ex_post2, ex_post3]\<rparr>) (post_id ex_post3) = Some ex_post3 \<and>
   (\<exists>au. handle_get_post (ex_db\<lparr>posts := [ex_post1, ex_post2, ex_post3]\<rparr>) (post_id ex_post3) =
           (json_response (PostWithAuthor ex_post3 au) 200,
            ex_db\<lparr>posts := [ex_post1, ex_post2, ex_post3]\<rparr>) \<and>
          sel_id au = authorId ex_post3) \<and>
   handle_create_post ex_db ex_fresh (Some (ex_create_body (JBool True))) =
     handle_create_post ex_db ex_fresh (Some (ex_create_body (JBool False)))"
proof -
  have d1: "destructure (Some (ex_create_body (JBool False))) = Inr (ex_create_body (JBool False))"
    and d2: "destructure (Some (ex_create_body (JBool True))) = Inr (ex_create_body (JBool True))"
    by (simp_all add: ex_create_body_def)
  have fields: "get_prop (ex_create_body (JBool False)) ''title'' = Some (JStr ''a'')"
    "get_prop (ex_create_body (JBool False)) ''content'' = Some (JStr ''b'')"
    "get_prop (ex_create_body (JBool False)) ''authorId'' = Some (JStr ''u2'')"
    by (simp_all add: ex_create_body_def)
  have nonempty: "''a'' \<noteq> []" "''b'' \<noteq> []" "''u2'' \<noteq> []"
    by simp_all
  have known: "''u2'' \<in> set (map user_id (users ex_db))"
    by (simp add: ex_db_def ex_users_def)
  have unused: "uuid ex_fresh \<notin> set (map post_id (posts ex_db))"
    by (simp add: ex_db_def ex_fresh_def ex_post1_def ex_post2_def)
  have new: "\<lparr>post_id = uuid ex_fresh, createdAt = now ex_fresh, title = ''a'', content = ''b'',
              authorId = ''u2'', published = True\<rparr> = ex_post3"
    by (simp add: ex_fresh_def ex_post3_def)
  have store: "ex_db\<lparr>posts := posts ex_db @ [ex_post3]\<rparr> =
      ex_db\<lparr>posts := [ex_post1, ex_post2, ex_post3]\<rparr>"
    by (simp add: ex_db_def)
  have props: "get_prop (ex_create_body (JBool True)) ''title'' =
        get_prop (ex_create_body (JBool False)) ''title'' \<and>
      get_prop (ex_create_body (JBool True)) ''content'' =
        get_prop (ex_create_body (JBool False)) ''content'' \<and>
      get_prop (ex_create_body (JBool True)) ''authorId'' =
        get_prop (ex_create_body (JBool False)) ''authorId''"
    by (simp add: ex_create_body_def)
  note inst = C3_created_published [of "Some (ex_create_body (JBool False))"
      "ex_create_body (JBool False)" "''a''" "''b''" "''u2''" ex_db ex_fresh ex_post3
      "ex_db\<lparr>posts := [ex_post1, ex_post2, ex_post3]\<rparr>"
      "Some (ex_create_body (JBool True))" "ex_create_body (JBool True)"]
  have run: "handle_create_post ex_db ex_fresh (Some (ex_create_body (JBool False))) =
     (json_response (PostJson ex_post3) 201, ex_db\<lparr>posts := [ex_post1, ex_post2, ex_post3]\<rparr>)"
    using inst [unfolded new store] d1 fields nonempty known unused by blast
  show ?thesis
    using run d1 d2 props inst by blast
qed

text \<open>
  Two create requests whose three fields are truthy and which store nothing. In the first
  the title is the number 5; in the second the author is no user. Both are rejected by the
  storage client and answered 500; the store is as it was.
\<close>

theorem C3_rejected_counterexample:
  "truthy (get_prop ex_numeric_title_body ''title'') \<and>
   truthy (get_prop ex_numeric_title_body ''content'') \<and>
   truthy (get_prop ex_numeric_title_body ''authorId'') \<and>
   handle_create_post ex_db ex_fresh (Some ex_numeric_title_body) =
     (json_response (ErrorDetails ''Failed to create post'' ValidationError) 500, ex_db) \<and>
   truthy (get_prop ex_unknown_author_body ''title'') \<and>
   truthy (get_prop ex_unknown_author_body ''content'') \<and>
   truthy (get_prop ex_unknown_author_body ''authorId'') \<and>
   handle_create_post ex_db ex_fresh (Some ex_unknown_author_body) =
     (json_response (ErrorDetails ''Failed to create post'' ForeignKeyViolation) 500, ex_db)"
  by (simp add: handle_create_post_def post_create_def Let_def ex_numeric_title_body_def
      ex_unknown_author_body_def ex_db_def ex_fresh_def ex_post1_def ex_post2_def ex_users_def)

section \<open>Facts about updating\<close>

lemma find_map_keeps_id:
  assumes "\<And>q. post_id (f q) = post_id q"
  shows "find (\<lambda>p. post_id p = i) (map f ps) = map_option f (find (\<lambda>p. post_id p = i) ps)"
  using assms by (induction ps) auto

lemma apply_update_keys [simp]:
  "post_id (apply_update t c pub p) = post_id p"
  "createdAt (apply_update t c pub p) = createdAt p"
  "authorId (apply_update t c pub p) = authorId p"
  by (simp_all add: apply_update_def)

lemma post_update_Inr:
  assumes "post_update d i t c pub = Inr (q, d')"
  shows "\<exists>t' c' pub' p. string_update_arg t = Inr t' \<and> string_update_arg c = Inr c' \<and>
           bool_update_arg pub = Inr pub' \<and> find_post d i = Some p \<and>
           q = apply_update t' c' pub' p \<and>
           d' = d\<lparr>posts := map (\<lambda>r. if post_id r = i then apply_update t' c' pub' r else r) (posts d)\<rparr>"
  using assms by (auto simp add: post_update_def split: sum.splits option.splits)

lemma update_keeps_keys:
  "map post_id (map (\<lambda>r. if post_id r = i then apply_update t c pub r else r) ps) = map post_id ps"
  "map createdAt (map (\<lambda>r. if post_id r = i then apply_update t c pub r else r) ps) = map createdAt ps"
  "map authorId (map (\<lambda>r. if post_id r = i then apply_update t c pub r else r) ps) = map authorId ps"
  by (induction ps) auto

lemma update_keeps_others:
  "filter (\<lambda>r. post_id r \<noteq> i) (map (\<lambda>r. if post_id r = i then apply_update t c pub r else r) ps) =
   filter (\<lambda>r. post_id r \<noteq> i) ps"
  by (induction ps) auto

lemma find_post_after_update:
  assumes "find_post d i = Some p"
  shows "find_post
           (d\<lparr>posts := map (\<lambda>r. if post_id r = i then apply_update t c pub r else r) (posts d)\<rparr>) i
         = Some (apply_update t c pub p)"
proof -
  have "find (\<lambda>p. post_id p = i)
          (map (\<lambda>r. if post_id r = i then apply_update t c pub r else r) (posts d))
      = map_option (\<lambda>r. if post_id r = i then apply_update t c pub r else r)
          (find (\<lambda>p. post_id p = i) (posts d))"
    by (rule find_map_keeps_id) simp
  moreover have "post_id p = i"
    using assms by (auto simp add: find_post_def find_Some_iff)
  ultimately show ?thesis
    using assms by (simp add: find_post_def)
qed

lemma handle_update_post_authorized:
  assumes "destructure b = Inr j" and "find_post d i = Some p"
    and "get_prop j ''currentUserId'' = Some (JStr (authorId p))" and "authorId p \<noteq> []"
  shows "handle_update_post d i b =
           (case post_update d i (get_prop j ''title'') (get_prop j ''content'')
                   (get_prop j ''published'') of
              Inr (q, d') \<Rightarrow> (json_response (PostJson q) 200, d')
            | Inl e \<Rightarrow> (json_response (ErrorDetails ''Failed to update post'' e) 500, d))"
  using assms by (simp add: handle_update_post_def find_post_authorId)

section \<open>Updating a post\<close>

text \<open>
  C7, as the code has it. An authorized update (the body can be destructured, the id names
  a stored post \<open>p\<close>, and \<open>currentUserId\<close> is the non-empty \<open>authorId\<close> of \<open>p\<close>):

  \<^item> the handler makes one \<^verbatim>\<open>update\<close> call for that id and passes it the body's \<open>title\<close>,
    \<open>content\<close> and \<open>published\<close> exactly as destructured, \<^verbatim>\<open>undefined\<close> for a field the body
    lacks; it never reads the stored values to fill a gap, and answers 200 with the row the
    call returns or 500 when the call is rejected;
  \<^item> when the storage client accepts the three arguments, the answer is 200 and the post
    with that id becomes the stored one with the accepted values applied;
  \<^item> in every 200 answer the returned post is the stored one; a field supplied as a string
    (a boolean for \<open>published\<close>) has the supplied value, and a field absent from the body has
    the value it had before: it is left unchanged, not emptied;
  \<^item> whatever the answer, no post changes its \<open>id\<close>, \<open>createdAt\<close> or \<open>authorId\<close>, the
    posts with another id are untouched, and so are the users.
\<close>

theorem C7_update_overwrites:
  assumes body: "destructure b = Inr j" and stored: "find_post d i = Some p"
    and author: "get_prop j ''currentUserId'' = Some (JStr (authorId p))" "authorId p \<noteq> []"
  shows "handle_update_post d i b =
           (case post_update d i (get_prop j ''title'') (get_prop j ''content'')
                   (get_prop j ''published'') of
              Inr (q, d') \<Rightarrow> (json_response (PostJson q) 200, d')
            | Inl e \<Rightarrow> (json_response (ErrorDetails ''Failed to update post'' e) 500, d)) \<and>
         (string_update_arg (get_prop j ''title'') = Inr t \<and>
          string_update_arg (get_prop j ''content'') = Inr c \<and>
          bool_update_arg (get_prop j ''published'') = Inr pub \<longrightarrow>
            handle_update_post d i b =
              (json_response (PostJson (apply_update t c pub p)) 200,
               d\<lparr>posts := map (\<lambda>r. if post_id r = i then apply_update t c pub r else r) (posts d)\<rparr>)) \<and>
         (handle_update_post d i b = (json_response (PostJson q) 200, d') \<longrightarrow>
            find_post d' i = Some q \<and>
            post_id q = post_id p \<and> createdAt q = createdAt p \<and> authorId q = authorId p \<and>
            (\<forall>s. get_prop j ''title'' = Some (JStr s) \<longrightarrow> title q = s) \<and>
            (get_prop j ''title'' = None \<longrightarrow> title q = title p) \<and>
            (\<forall>s. get_prop j ''content'' = Some (JStr s) \<longrightarrow> content q = s) \<and>
            (get_prop j ''content'' = None \<longrightarrow> content q = content p) \<and>
            (\<forall>v. get_prop j ''published'' = Some (JBool v) \<longrightarrow> published q = v) \<and>
            (get_prop j ''published'' = None \<longrightarrow> published q = published p)) \<and>
         (handle_update_post d i b = (out, d') \<longrightarrow>
            map post_id (posts d') = map post_id (posts d) \<and>
            map createdAt (posts d') = map createdAt (posts d) \<and>
            map authorId (posts d') = map authorId (posts d) \<and>
            filter (\<lambda>r. post_id r \<noteq> i) (posts d') = filter (\<lambda>r. post_id r \<noteq> i) (posts d) \<and>
            users d' = users d)"
proof -
  let ?u = "post_update d i (get_prop j ''title'') (get_prop j ''content'') (get_prop j ''published'')"
  have pass: "handle_update_post d i b =
      (case ?u of
         Inr (q, d') \<Rightarrow> (json_response (PostJson q) 200, d')
       | Inl e \<Rightarrow> (json_response (ErrorDetails ''Failed to update post'' e) 500, d))"
    using assms by (rule handle_update_post_authorized)
  have accepted: "string_update_arg (get_prop j ''title'') = Inr t \<Longrightarrow>
      string_update_arg (get_prop j ''content'') = Inr c \<Longrightarrow>
      bool_update_arg (get_prop j ''published'') = Inr pub \<Longrightarrow>
      handle_update_post d i b =
        (json_response (PostJson (apply_update t c pub p)) 200,
         d\<lparr>posts := map (\<lambda>r. if post_id r = i then apply_update t c pub r else r) (posts d)\<rparr>)"
    using stored by (simp add: pass post_update_def)
  have ok: "find_post d' i = Some q \<and>
      post_id q = post_id p \<and> createdAt q = createdAt p \<and> authorId q = authorId p \<and>
      (\<forall>s. get_prop j ''title'' = Some (JStr s) \<longrightarrow> title q = s) \<and>
      (get_prop j ''title'' = None \<longrightarrow> title q = title p) \<and>
      (\<forall>s. get_prop j ''content'' = Some (JStr s) \<longrightarrow> content q = s) \<and>
      (get_prop j ''content'' = None \<longrightarrow> content q = content p) \<and>
      (\<forall>v. get_prop j ''published'' = Some (JBool v) \<longrightarrow> published q = v) \<and>
      (get_prop j ''published'' = None \<longrightarrow> published q = published p)"
    if run: "handle_update_post d i b = (json_response (PostJson q) 200, d')"
  proof -
    from run pass have "?u = Inr (q, d')"
      by (auto simp add: json_response_def split: sum.splits)
    from post_update_Inr [OF this] stored obtain t' c' pub' where
      args: "string_update_arg (get_prop j ''title'') = Inr t'"
        "string_update_arg (get_prop j ''content'') = Inr c'"
        "bool_update_arg (get_prop j ''published'') = Inr pub'"
      and q: "q = apply_update t' c' pub' p"
      and d': "d' = d\<lparr>posts :=
          map (\<lambda>r. if post_id r = i then apply_update t' c' pub' r else r) (posts d)\<rparr>"
      by auto
    have "find_post d' i = Some q"
      unfolding d' q using stored by (rule find_post_after_update)
    then show ?thesis
      using args by (auto simp add: q apply_update_def)
  qed
  have keys: "map post_id (posts d') = map post_id (posts d) \<and>
      map createdAt (posts d') = map createdAt (posts d) \<and>
      map authorId (posts d') = map authorId (posts d) \<and>
      filter (\<lambda>r. post_id r \<noteq> i) (posts d') = filter (\<lambda>r. post_id r \<noteq> i) (posts d) \<and>
      users d' = users d"
    if run: "handle_update_post d i b = (out, d')"
  proof (cases ?u)
    case (Inl e)
    with run pass show ?thesis by simp
  next
    case (Inr x)
    then obtain q0 where u: "?u = Inr (q0, d')"
      using run pass by (cases x) simp
    from post_update_Inr [OF u] show ?thesis
      by (auto simp add: update_keeps_keys update_keeps_others)
  qed
  show ?thesis
    using pass accepted ok keys by blast
qed

theorem C7_witness:
  "handle_update_post ex_db ''p1'' (Some ex_update_body) =
     (json_response (PostJson ex_post1_updated) 200, ex_db\<lparr>posts := [ex_post1_updated, ex_post2]\<rparr>) \<and>
   find_post (ex_db\<lparr>posts := [ex_post1_updated, ex_post2]\<rparr>) ''p1'' = Some ex_post1_updated \<and>
   title ex_post1_updated = ''N'' \<and>
   content ex_post1_updated = content ex_post1 \<and>
   published ex_post1_updated = False \<and>
   post_id ex_post1_updated = post_id ex_post1 \<and>
   createdAt ex_post1_updated = createdAt ex_post1 \<and>
   authorId ex_post1_updated = authorId ex_post1 \<and>
   map post_id (posts (ex_db\<lparr>posts := [ex_post1_updated, ex_post2]\<rparr>)) = map post_id (posts ex_db)"
proof -
  have body: "destructure (Some ex_update_body) = Inr ex_update_body"
    by (simp add: ex_update_body_def)
  have stored: "find_post ex_db ''p1'' = Some ex_post1"
    by (simp add: find_post_def ex_db_def ex_post1_def)
  have author: "get_prop ex_update_body ''currentUserId'' = Some (JStr (authorId ex_post1))"
    "authorId ex_post1 \<noteq> []"
    by (simp_all add: ex_update_body_def ex_post1_def)
  have props: "get_prop ex_update_body ''title'' = Some (JStr ''N'')"
    "get_prop ex_update_body ''content'' = None"
    "get_prop ex_update_body ''published'' = Some (JBool False)"
    by (simp_all add: ex_update_body_def)
  have args: "string_update_arg (get_prop ex_update_body ''title'') = Inr (Some ''N'')"
    "string_update_arg (get_prop ex_update_body ''content'') = Inr None"
    "bool_update_arg (get_prop ex_update_body ''published'') = Inr (Some False)"
    by (simp_all add: props)
  have new: "apply_update (Some ''N'') None (Some False) ex_post1 = ex_post1_updated"
    by (simp add: apply_update_def ex_post1_def ex_post1_updated_def)
  have store: "ex_db\<lparr>posts := map (\<lambda>r. if post_id r = ''p1''
        then apply_update (Some ''N'') None (Some False) r else r) (posts ex_db)\<rparr> =
      ex_db\<lparr>posts := [ex_post1_updated, ex_post2]\<rparr>"
    by (simp add: ex_db_def apply_update_def ex_post1_def ex_post2_def ex_post1_updated_def)
  note inst = C7_update_overwrites [OF body stored author, of "Some ''N''" None "Some False"
      ex_post1_updated "ex_db\<lparr>posts := [ex_post1_updated, ex_post2]\<rparr>"
      "json_response (PostJson ex_post1_updated) 200"]
  have run: "handle_update_post ex_db ''p1'' (Some ex_update_body) =
     (json_response (PostJson ex_post1_updated) 200, ex_db\<lparr>posts := [ex_post1_updated, ex_post2]\<rparr>)"
    using inst [unfolded new store] args by blast
  show ?thesis
    using run inst props by blast
qed

text \<open>
  The owner of \<open>p1\<close> sends a body with \<open>currentUserId\<close> and nothing else. The three fields
  are absent from the body; the answer is 200 with the post as it was stored, title and
  content and flag included, and the store is the same as before: nothing was emptied.
\<close>

theorem C7_absent_fields_counterexample:
  "handle_update_post ex_db ''p1'' (Some ex_owner_only_body) =
     (json_response (PostJson ex_post1) 200, ex_db) \<and>
   get_prop ex_owner_only_body ''title'' = None \<and>
   get_prop ex_owner_only_body ''content'' = None \<and>
   get_prop ex_owner_only_body ''published'' = None \<and>
   find_post ex_db ''p1'' = Some ex_post1 \<and>
   title ex_post1 = ''T'' \<and> content ex_post1 = ''C'' \<and> published ex_post1"
  by (simp add: handle_update_post_def post_findUnique_authorId_def find_post_def post_update_def
      apply_update_def ex_owner_only_body_def ex_db_def ex_post1_def ex_post2_def)

section \<open>The entry point\<close>

lemma dispatch_prisma: "prisma (snd (dispatch w g r)) = prisma w"
  by (simp add: dispatch_def split: prod.splits)

lemma fetch_initialized:
  "prisma w = Some c \<Longrightarrow> fetch w env g r = dispatch w g r"
  by (simp add: fetch_def)

lemma fetch_keeps_client:
  "prisma w = Some c \<Longrightarrow> prisma (snd (fetch w env g r)) = Some c"
  by (simp add: fetch_initialized dispatch_prisma)

lemma serve_initialized:
  "prisma w = Some c \<Longrightarrow> map snd reqs = map snd reqs' \<Longrightarrow>
   serve w reqs = serve w reqs' \<and> prisma (snd (serve w reqs)) = Some c"
proof (induction reqs arbitrary: w reqs')
  case Nil
  then show ?case by simp
next
  case (Cons x reqs)
  obtain env g r where x: "x = (env, g, r)" by (cases x) auto
  from Cons.prems(2) x obtain env' rest where r': "reqs' = (env', g, r) # rest"
    and tl: "map snd reqs = map snd rest"
    by (cases reqs') auto
  obtain out w' where f: "fetch w env g r = (out, w')" by (cases "fetch w env g r") auto
  have same: "fetch w env' g r = (out, w')"
    using f Cons.prems(1) by (simp add: fetch_initialized)
  have keep: "prisma w' = Some c"
    using fetch_keeps_client [OF Cons.prems(1), of env g r] f by simp
  from Cons.IH [OF keep tl] show ?case
    using x r' f same by (cases "serve w' rest") auto
qed

lemma fetch_misconfigured:
  "prisma w = None \<Longrightarrow> url_misconfigured (DATABASE_URL_ACCELERATE env) \<Longrightarrow>
   fetch w env g r = (misconfiguration_response, w)"
  by (simp add: fetch_def)

lemma serve_misconfigured:
  "prisma w = None \<Longrightarrow>
   list_all (\<lambda>(env, g, r). url_misconfigured (DATABASE_URL_ACCELERATE env)) reqs \<Longrightarrow>
   serve w reqs = (replicate (length reqs) misconfiguration_response, w)"
  by (induction reqs arbitrary: w) (auto simp add: fetch_misconfigured)

lemma health_request_served:
  "dispatch w g ex_health_request =
     (text_response ''Hono Blog Backend (on Cloudflare Workers) is running!'', w)"
  by (simp add: dispatch_def app_fetch_def ex_health_request_def handle_root_def)

text \<open>
  C8, as the code has it. While the client is not initialized, a request that arrives with
  a connection string that is missing, not a string, empty or without the prefix
  \<^verbatim>\<open>prisma://\<close> is answered 500 with the plain text
  \<^verbatim>\<open>Internal Server Error: Database URL misconfiguration\<close>; no route handler runs, the
  store is untouched and the client stays uninitialized. So a process whose every request
  arrives with such a value answers every one of them that way. The test is made by the
  entry point on each request that finds the client uninitialized.
\<close>

theorem C8_misconfigured_500:
  assumes "prisma w = None"
  shows "(url_misconfigured (DATABASE_URL_ACCELERATE env) \<longrightarrow>
            fetch w env g r = (misconfiguration_response, w)) \<and>
         (list_all (\<lambda>(env, g, r). url_misconfigured (DATABASE_URL_ACCELERATE env)) reqs \<longrightarrow>
            serve w reqs = (replicate (length reqs) misconfiguration_response, w))"
  using assms by (simp add: fetch_misconfigured serve_misconfigured)

theorem C8_witness:
  "fetch ex_fresh_world ex_missing_env ex_fresh ex_health_request =
     (misconfiguration_response, ex_fresh_world) \<and>
   serve ex_fresh_world
     [(ex_missing_env, ex_fresh, ex_health_request), (ex_wrong_env, ex_fresh, ex_health_request)] =
     ([misconfiguration_response, misconfiguration_response], ex_fresh_world)"
proof -
  have none: "prisma ex_fresh_world = None"
    by (simp add: ex_fresh_world_def)
  have bad: "url_misconfigured (DATABASE_URL_ACCELERATE ex_missing_env)"
    by (simp add: ex_missing_env_def)
  have bad': "url_misconfigured (DATABASE_URL_ACCELERATE ex_wrong_env)"
    by (simp add: ex_wrong_env_def startsWith_def)
  show ?thesis
    using bad bad' C8_misconfigured_500 [OF none, of ex_missing_env ex_fresh ex_health_request
        "[(ex_missing_env, ex_fresh, ex_health_request), (ex_wrong_env, ex_fresh, ex_health_request)]"]
    by (simp del: serve.simps)
qed

text \<open>
  Two runs on which the claim as worded fails. A process whose client is initialized gets
  a request with the connection string missing: the request is routed and answered 200.
  And a process that starts with the connection string missing answers its first request
  500, then gets a request with a valid connection string and serves it, and serves the
  one after that although the connection string is missing again: the value is looked at
  when a request arrives, not once when the process starts.
\<close>

theorem C8_counterexample:
  "url_misconfigured (DATABASE_URL_ACCELERATE ex_missing_env) \<and>
   fetch ex_running_world ex_missing_env ex_fresh ex_health_request =
     (text_response ''Hono Blog Backend (on Cloudflare Workers) is running!'', ex_running_world) \<and>
   serve ex_fresh_world
     [(ex_missing_env, ex_fresh, ex_health_request), (ex_valid_env, ex_fresh, ex_health_request),
      (ex_missing_env, ex_fresh, ex_health_request)] =
     ([misconfiguration_response,
       text_response ''Hono Blog Backend (on Cloudflare Workers) is running!'',
       text_response ''Hono Blog Backend (on Cloudflare Workers) is running!''],
      ex_running_world)"
  by (simp add: fetch_def health_request_served ex_missing_env_def ex_valid_env_def
      ex_running_world_def ex_fresh_world_def startsWith_def initializePrismaClient_def)

text \<open>
  C10. Once the client is initialized, the entry point hands every request to the router
  without looking at the environment, and the client stays the one it is: a run of the
  process from such a state does not depend on the connection strings its requests arrive
  with, and ends with the same client. The client is set by the first request that finds
  it unset and arrives with a well-formed connection string, to a client for that string.
\<close>

theorem C10_initialized_once:
  "(prisma w = Some c \<longrightarrow>
      fetch w env g r = dispatch w g r \<and> prisma (snd (fetch w env g r)) = Some c) \<and>
   (prisma w = Some c \<and> map snd reqs = map snd reqs' \<longrightarrow>
      serve w reqs = serve w reqs' \<and> prisma (snd (serve w reqs)) = Some c) \<and>
   (prisma w = None \<and> \<not> url_misconfigured (DATABASE_URL_ACCELERATE env) \<longrightarrow>
      prisma (snd (fetch w env g r)) =
        Some (initializePrismaClient (env_url (DATABASE_URL_ACCELERATE env))))"
proof -
  have one: "prisma w = Some c \<Longrightarrow>
      fetch w env g r = dispatch w g r \<and> prisma (snd (fetch w env g r)) = Some c"
    by (simp add: fetch_initialized dispatch_prisma)
  have many: "prisma w = Some c \<Longrightarrow> map snd reqs = map snd reqs' \<Longrightarrow>
      serve w reqs = serve w reqs' \<and> prisma (snd (serve w reqs)) = Some c"
    by (rule serve_initialized)
  have init: "prisma w = None \<Longrightarrow> \<not> url_misconfigured (DATABASE_URL_ACCELERATE env) \<Longrightarrow>
      prisma (snd (fetch w env g r)) =
        Some (initializePrismaClient (env_url (DATABASE_URL_ACCELERATE env)))"
    by (simp add: fetch_def dispatch_prisma)
  show ?thesis
    using one many init by blast
qed

theorem C10_witness:
  "fetch ex_running_world ex_missing_env ex_fresh ex_health_request =
     dispatch ex_running_world ex_fresh ex_health_request \<and>
   prisma (snd (fetch ex_running_world ex_missing_env ex_fresh ex_health_request)) =
     Some (PrismaClient ''prisma://db'') \<and>
   serve ex_running_world [(ex_missing_env, ex_fresh, ex_health_request)] =
     serve ex_running_world [(ex_valid_env, ex_fresh, ex_health_request)] \<and>
   prisma (snd (fetch ex_fresh_world ex_valid_env ex_fresh ex_health_request)) =
     Some (PrismaClient ''prisma://db'')"
proof -
  have running: "prisma ex_running_world = Some (PrismaClient ''prisma://db'')"
    by (simp add: ex_running_world_def)
  have none: "prisma ex_fresh_world = None"
    by (simp add: ex_fresh_world_def)
  have good: "\<not> url_misconfigured (DATABASE_URL_ACCELERATE ex_valid_env)"
    by (simp add: ex_valid_env_def startsWith_def)
  have url: "initializePrismaClient (env_url (DATABASE_URL_ACCELERATE ex_valid_env)) =
      PrismaClient ''prisma://db''"
    by (simp add: ex_valid_env_def initializePrismaClient_def)
  have same: "map snd [(ex_missing_env, ex_fresh, ex_health_request)] =
      map snd [(ex_valid_env, ex_fresh, ex_health_request)]"
    by simp
  have a: "fetch ex_running_world ex_missing_env ex_fresh ex_health_request =
      dispatch ex_running_world ex_fresh ex_health_request \<and>
    prisma (snd (fetch ex_running_world ex_missing_env ex_fresh ex_health_request)) =
      Some (PrismaClient ''prisma://db'') \<and>
    serve ex_running_world [(ex_missing_env, ex_fresh, ex_health_request)] =
      serve ex_running_world [(ex_valid_env, ex_fresh, ex_health_request)]"
    using running same C10_initialized_once [of ex_running_world "PrismaClient ''prisma://db''"
        ex_missing_env ex_fresh ex_health_request "[(ex_missing_env, ex_fresh, ex_health_request)]"
        "[(ex_valid_env, ex_fresh, ex_health_request)]"]
    by blast
  have b: "prisma (snd (fetch ex_fresh_world ex_valid_env ex_fresh ex_health_request)) =
      Some (PrismaClient ''prisma://db'')"
    using none good url C10_initialized_once [of ex_fresh_world "PrismaClient ''prisma://db''"
        ex_valid_env ex_fresh ex_health_request "[]" "[]"]
    by (simp del: serve.simps)
  show ?thesis using a b by blast
qed

section \<open>The handlers keep the constraints of the schema\<close>

lemma reads_keep_store:
  "snd (handle_root d) = d" "snd (handle_get_posts d) = d" "snd (handle_get_post d i) = d"
  by (auto simp add: handle_root_def handle_get_posts_def handle_get_post_def
      split: sum.splits option.splits)

lemma create_keeps_integrity:
  "referential_integrity d \<Longrightarrow> referential_integrity (snd (handle_create_post d g b))"
  using post_create_Inr [of d g _ _ _ True]
  by (fastforce simp add: handle_create_post_def referential_integrity_def Let_def
      split: sum.splits prod.splits)

lemma update_keeps_integrity:
  "referential_integrity d \<Longrightarrow> referential_integrity (snd (handle_update_post d i b))"
  using post_update_Inr [of d i]
  by (fastforce simp add: handle_update_post_def referential_integrity_def Let_def
      update_keeps_keys simp del: map_map split: sum.splits prod.splits option.splits)

lemma delete_keeps_integrity:
  "referential_integrity d \<Longrightarrow> referential_integrity (snd (handle_delete_post d i b))"
  by (auto simp add: handle_delete_post_def post_delete_def referential_integrity_def Let_def
      split: sum.splits prod.splits option.splits)

lemma app_fetch_keeps_integrity:
  "referential_integrity d \<Longrightarrow> referential_integrity (snd (app_fetch d g r))"
  by (simp add: app_fetch_def reads_keep_store create_keeps_integrity update_keeps_integrity
      delete_keeps_integrity split: list.splits)

lemma create_keeps_primary_key:
  "primary_key d \<Longrightarrow> primary_key (snd (handle_create_post d g b))"
  using post_create_Inr [of d g _ _ _ True]
  by (fastforce simp add: handle_create_post_def primary_key_def Let_def
      split: sum.splits prod.splits)

lemma update_keeps_primary_key:
  "primary_key d \<Longrightarrow> primary_key (snd (handle_update_post d i b))"
  using post_update_Inr [of d i]
  by (fastforce simp add: handle_update_post_def primary_key_def Let_def
      update_keeps_keys simp del: map_map split: sum.splits prod.splits option.splits)

lemma delete_keeps_primary_key:
  "primary_key d \<Longrightarrow> primary_key (snd (handle_delete_post d i b))"
  by (auto simp add: handle_delete_post_def post_delete_def primary_key_def Let_def
      distinct_map_filter split: sum.splits prod.splits option.splits)

lemma app_fetch_keeps_primary_key:
  "primary_key d \<Longrightarrow> primary_key (snd (app_fetch d g r))"
  by (simp add: app_fetch_def reads_keep_store create_keeps_primary_key update_keeps_primary_key
      delete_keeps_primary_key split: list.splits)

lemma primary_key_find_post:
  "primary_key d \<Longrightarrow> p \<in> set (posts d) \<Longrightarrow> find_post d (post_id p) = Some p"
  by (simp add: primary_key_def find_post_def stored_post_found)

end
